theory Spec2Isabelle
  imports Main "HOL-Library.Multiset"
begin

section \<open>Values, exceptions and the Python string operations the program uses\<close>

text \<open>
  The program is \<^verbatim>\<open>src/main.py\<close>: a Flask backend around the yt-dlp engine. Python
  values that the program builds (option dictionaries, JSON bodies) are \<open>pyval\<close>; a
  \<^verbatim>\<open>dict\<close> literal is an association list in insertion order.
\<close>

datatype pyval =
    Str string
  | Num int
  | Lst "pyval list"
  | Dict "(string \<times> pyval) list"

text \<open>
  Instances of Python's \<^verbatim>\<open>Exception\<close>. \<open>ValueError\<close> and \<open>FileNotFoundError\<close> carry the
  single message argument the program raises them with; \<open>NoSuchDirectory\<close> is the
  \<^verbatim>\<open>FileNotFoundError\<close> that \<^verbatim>\<open>os.listdir\<close> raises itself (errno 2, with the path);
  \<open>FileExistsError\<close> is what \<^verbatim>\<open>tempfile.mkdtemp\<close> raises when its candidate names are
  used up; \<open>OtherException\<close> is any other exception class, with its class name and its
  message (whatever the engine raises).
\<close>

datatype exn =
    ValueError string
  | FileNotFoundError string
  | NoSuchDirectory string
  | FileExistsError string
  | OtherException string string

text \<open>\<^verbatim>\<open>str(e)\<close>.\<close>

fun str_exn :: "exn \<Rightarrow> string" where
  "str_exn (ValueError m) = m"
| "str_exn (FileNotFoundError m) = m"
| "str_exn (NoSuchDirectory p) =
     ''[Errno 2] No such file or directory: '' @ [CHR 0x27] @ p @ [CHR 0x27]"
| "str_exn (FileExistsError m) = m"
| "str_exn (OtherException c m) = m"

text \<open>\<^verbatim>\<open>str(n)\<close> for a natural number: its decimal digits.\<close>

definition digit_char :: "nat \<Rightarrow> char" where
  "digit_char d = char_of (48 + d)"

fun str_nat :: "nat \<Rightarrow> string" where
  "str_nat n = (if n < 10 then [digit_char n] else str_nat (n div 10) @ [digit_char (n mod 10)])"

declare str_nat.simps [simp del]

text \<open>\<^verbatim>\<open>s.startswith(p)\<close> and \<^verbatim>\<open>s.endswith(p)\<close>.\<close>

definition startswith :: "string \<Rightarrow> string \<Rightarrow> bool" where
  "startswith s p = (take (length p) s = p)"

definition endswith :: "string \<Rightarrow> string \<Rightarrow> bool" where
  "endswith s p = (length p \<le> length s \<and> drop (length s - length p) s = p)"

text \<open>
  \<^verbatim>\<open>s.lower()\<close>. File names are taken as ASCII text: the letters \<open>A\<close> to \<open>Z\<close> (codes 65 to
  90) go to \<open>a\<close> to \<open>z\<close>, every other character stays.
\<close>

definition lower_char :: "char \<Rightarrow> char" where
  "lower_char c =
     (let n = (of_char c :: nat) in if 65 \<le> n \<and> n \<le> 90 then char_of (n + 32) else c)"

definition lower :: "string \<Rightarrow> string" where
  "lower s = map lower_char s"

text \<open>
  \<^verbatim>\<open>s.split(sep)\<close> for a one-character separator: the pieces between the separators, at
  least one piece.
\<close>

fun split :: "char \<Rightarrow> string \<Rightarrow> string list" where
  "split sep [] = [[]]"
| "split sep (c # cs) =
     (if c = sep then [] # split sep cs
      else (case split sep cs of
              [] \<Rightarrow> [[c]]
            | w # ws \<Rightarrow> (c # w) # ws))"

text \<open>\<^verbatim>\<open>xs[0]\<close>: an \<^verbatim>\<open>IndexError\<close> on the empty list.\<close>

definition index0 :: "'a list \<Rightarrow> exn + 'a" where
  "index0 xs = (case xs of [] \<Rightarrow> Inl (OtherException ''IndexError'' ''list index out of range'')
                | x # _ \<Rightarrow> Inr x)"

subsection \<open>\<^verbatim>\<open>os.path\<close> (posixpath)\<close>

text \<open>\<^verbatim>\<open>p.rfind('/') + 1\<close>: the position after the last separator, 0 when there is none.\<close>

definition after_last_sep :: "string \<Rightarrow> nat" where
  "after_last_sep p = length p - length (takeWhile (\<lambda>c. c \<noteq> CHR ''/'') (rev p))"

definition basename :: "string \<Rightarrow> string" where
  "basename p = drop (after_last_sep p) p"

definition dirname :: "string \<Rightarrow> string" where
  "dirname p =
     (let head = take (after_last_sep p) p in
      if head \<noteq> [] \<and> head \<noteq> replicate (length head) (CHR ''/'')
      then rev (dropWhile (\<lambda>c. c = CHR ''/'') (rev head))
      else head)"

text \<open>\<^verbatim>\<open>os.path.join(a, b)\<close>.\<close>

definition join :: "string \<Rightarrow> string \<Rightarrow> string" where
  "join a b =
     (if startswith b ''/'' \<or> a = [] then b
      else if endswith a ''/'' then a @ b
      else a @ ''/'' @ b)"

section \<open>Engine options\<close>

definition MAX_DOWNLOAD_RETRIES :: nat where
  "MAX_DOWNLOAD_RETRIES = 2"

definition get_ydl_opts :: "string \<Rightarrow> string \<Rightarrow> string \<Rightarrow> exn + pyval" where
  "get_ydl_opts fmt quality tpl =
     (if fmt = ''mp4'' then
        Inr (Dict [(''format'', Str ''bestvideo+bestaudio/best''),
                   (''outtmpl'', Str tpl),
                   (''merge_output_format'', Str ''mp4''),
                   (''retries'', Num (int MAX_DOWNLOAD_RETRIES))])
      else if fmt = ''mp3'' then
        Inr (Dict [(''format'', Str ''bestaudio/best''),
                   (''outtmpl'', Str tpl),
                   (''postprocessors'',
                      Lst [Dict [(''key'', Str ''FFmpegExtractAudio''),
                                 (''preferredcodec'', Str ''mp3''),
                                 (''preferredquality'', Str ''192'')]]),
                   (''retries'', Num (int MAX_DOWNLOAD_RETRIES))])
      else Inl (ValueError (''Unsupported format: '' @ fmt)))"

section \<open>The world the program runs in\<close>

text \<open>
  A row of the \<^verbatim>\<open>DownloadHistory\<close> table. The columns \<^verbatim>\<open>id\<close>, \<^verbatim>\<open>url\<close> and \<^verbatim>\<open>quality\<close> carry
  the suffix \<open>_col\<close>; a \<^verbatim>\<open>timestamp\<close> is an instant on an integer time line.
\<close>

record DownloadHistory =
  id_col :: int
  url_col :: string
  file_format :: string
  quality_col :: string
  timestamp :: int

datatype log_record =
    Warning string
  | ErrorWithException string exn

text \<open>
  What the program changes or reads while it runs: the directories of the file system
  (each with its entries in the order \<^verbatim>\<open>os.listdir\<close> yields them), the history table,
  the engine invocations made so far (options and URL list of each), the directories
  scanned so far, the log, and the instant \<^verbatim>\<open>datetime.utcnow\<close> returns.
\<close>

record state =
  fs :: "string \<rightharpoonup> string list"
  db :: "DownloadHistory list"
  engine_calls :: "(pyval \<times> string list) list"
  listdir_calls :: "string list"
  log_records :: "log_record list"
  clock :: int

text \<open>
  The collaborators outside the program. \<open>engine\<close> is yt-dlp: given how many invocations
  came before, the options, the URLs and the file system, it either returns normally
  (\<open>None\<close>) or raises, and leaves a file system behind. \<open>API_KEY\<close> is the environment
  variable (unset: \<open>None\<close>). \<open>tmp_names\<close> are the candidate directories
  \<^verbatim>\<open>tempfile.mkdtemp\<close> tries in turn, \<open>removable\<close> says which directories the process may
  delete, \<open>isoformat\<close> renders an instant.
\<close>

record env =
  engine :: "nat \<Rightarrow> pyval \<Rightarrow> string list \<Rightarrow> (string \<rightharpoonup> string list)
               \<Rightarrow> exn option \<times> (string \<rightharpoonup> string list)"
  API_KEY :: "string option"
  tmp_names :: "string list"
  removable :: "string \<Rightarrow> bool"
  isoformat :: "int \<Rightarrow> string"

text \<open>\<^verbatim>\<open>with yt_dlp.YoutubeDL(opts) as ydl: ydl.download(urls)\<close>: one engine invocation.\<close>

definition ydl_download :: "env \<Rightarrow> pyval \<Rightarrow> string list \<Rightarrow> state \<Rightarrow> (exn + unit) \<times> state" where
  "ydl_download e opts urls st =
     (case engine e (length (engine_calls st)) opts urls (fs st) of
        (r, fs') \<Rightarrow>
          ((case r of None \<Rightarrow> Inr () | Some x \<Rightarrow> Inl x),
           st\<lparr>fs := fs', engine_calls := engine_calls st @ [(opts, urls)]\<rparr>))"

definition logging_warning :: "string \<Rightarrow> state \<Rightarrow> state" where
  "logging_warning msg st = st\<lparr>log_records := log_records st @ [Warning msg]\<rparr>"

definition logging_exception :: "string \<Rightarrow> exn \<Rightarrow> state \<Rightarrow> state" where
  "logging_exception msg x st = st\<lparr>log_records := log_records st @ [ErrorWithException msg x]\<rparr>"

text \<open>\<^verbatim>\<open>os.listdir(d)\<close>; the empty path and a missing directory raise.\<close>

definition listdir :: "string \<Rightarrow> state \<Rightarrow> (exn + string list) \<times> state" where
  "listdir d st =
     (let st1 = st\<lparr>listdir_calls := listdir_calls st @ [d]\<rparr> in
      if d = [] then (Inl (NoSuchDirectory d), st1)
      else (case fs st d of
              None \<Rightarrow> (Inl (NoSuchDirectory d), st1)
            | Some names \<Rightarrow> (Inr names, st1)))"

section \<open>The orchestrator: \<^verbatim>\<open>download_single\<close>\<close>

text \<open>
  The retry loop \<^verbatim>\<open>for attempt in range(MAX_DOWNLOAD_RETRIES)\<close>, over the attempts still to
  run. A normal return of the engine is the \<^verbatim>\<open>break\<close>; an exception is logged, and
  re-raised on the attempt \<open>MAX_DOWNLOAD_RETRIES - 1\<close>.
\<close>

fun retry_loop :: "env \<Rightarrow> pyval \<Rightarrow> string \<Rightarrow> nat list \<Rightarrow> state \<Rightarrow> (exn + unit) \<times> state" where
  "retry_loop e opts url [] st = (Inr (), st)"
| "retry_loop e opts url (attempt # rest) st =
     (case ydl_download e opts [url] st of
        (Inr _, st1) \<Rightarrow> (Inr (), st1)
      | (Inl x, st1) \<Rightarrow>
          (let st2 = logging_warning
                       (''Attempt '' @ str_nat (attempt + 1) @ '' failed: '' @ str_exn x) st1
           in if attempt = MAX_DOWNLOAD_RETRIES - 1 then (Inl x, st2)
              else retry_loop e opts url rest st2))"

text \<open>
  The scan \<^verbatim>\<open>for fname in os.listdir(d)\<close>: the first entry that passes the test is
  returned joined to the directory; with none, \<^verbatim>\<open>FileNotFoundError\<close>.
\<close>

fun locate :: "string \<Rightarrow> string \<Rightarrow> string \<Rightarrow> string list \<Rightarrow> exn + string" where
  "locate d prefix fmt [] =
     Inl (FileNotFoundError (''No .'' @ fmt @ '' file found for '' @ prefix))"
| "locate d prefix fmt (fname # rest) =
     (if startswith fname prefix \<and> endswith (lower fname) fmt then Inr (join d fname)
      else locate d prefix fmt rest)"

definition download_single ::
  "env \<Rightarrow> string \<Rightarrow> string \<Rightarrow> string \<Rightarrow> string \<Rightarrow> state \<Rightarrow> (exn + string) \<times> state" where
  "download_single e url fmt quality tpl st =
     (case get_ydl_opts fmt quality tpl of
        Inl x \<Rightarrow> (Inl x, st)
      | Inr opts \<Rightarrow>
          (case retry_loop e opts url [0..<MAX_DOWNLOAD_RETRIES] st of
             (Inl x, st1) \<Rightarrow> (Inl x, st1)
           | (Inr _, st1) \<Rightarrow>
               (let d = dirname tpl in
                case index0 (split (CHR ''.'') (basename tpl)) of
                  Inl x \<Rightarrow> (Inl x, st1)
                | Inr prefix \<Rightarrow>
                    (case listdir d st1 of
                       (Inl x, st2) \<Rightarrow> (Inl x, st2)
                     | (Inr names, st2) \<Rightarrow> (locate d prefix fmt names, st2)))))"

section \<open>The routes\<close>

text \<open>
  A request is its headers and its query arguments. A response is a JSON body with a
  status, or the attachment \<^verbatim>\<open>send_file\<close> builds (a path and the download name, sent
  with status 200).
\<close>

record request =
  headers :: "string \<rightharpoonup> string"
  args :: "string \<rightharpoonup> string"

datatype response =
    JsonResponse pyval nat
  | FileResponse string string

text \<open>\<^verbatim>\<open>f'{API_KEY}'\<close>: an unset key formats as \<^verbatim>\<open>None\<close>.\<close>

definition format_key :: "string option \<Rightarrow> string" where
  "format_key k = (case k of None \<Rightarrow> ''None'' | Some v \<Rightarrow> v)"

definition require_api_key ::
  "(env \<Rightarrow> request \<Rightarrow> state \<Rightarrow> (exn + response) \<times> state)
     \<Rightarrow> env \<Rightarrow> request \<Rightarrow> state \<Rightarrow> (exn + response) \<times> state" where
  "require_api_key f e req st =
     (let auth = (case headers req ''Authorization'' of None \<Rightarrow> [] | Some a \<Rightarrow> a) in
      if auth \<noteq> ''Bearer '' @ format_key (API_KEY e)
      then (Inr (JsonResponse (Dict [(''error'', Str ''Unauthorized'')]) 401), st)
      else f e req st)"

text \<open>
  \<^verbatim>\<open>tempfile.mkdtemp()\<close>: the first candidate name that does not exist yet is created
  empty and returned; with every candidate taken it raises.
\<close>

definition mkdtemp :: "env \<Rightarrow> state \<Rightarrow> (exn + string) \<times> state" where
  "mkdtemp e st =
     (case find (\<lambda>n. fs st n = None) (tmp_names e) of
        None \<Rightarrow> (Inl (FileExistsError ''No usable temporary directory name found''), st)
      | Some n \<Rightarrow> (Inr n, st\<lparr>fs := (fs st)(n \<mapsto> [])\<rparr>))"

text \<open>
  \<^verbatim>\<open>shutil.rmtree(path, ignore_errors)\<close>: the directory goes with everything below it.
  A missing directory, or one the process may not delete, raises unless errors are
  ignored; then the file system stays as it is.
\<close>

definition rmtree :: "env \<Rightarrow> string \<Rightarrow> bool \<Rightarrow> state \<Rightarrow> (exn + unit) \<times> state" where
  "rmtree e path ignore_errors st =
     (if fs st path = None then
        (if ignore_errors then (Inr (), st) else (Inl (NoSuchDirectory path), st))
      else if removable e path then
        (Inr (), st\<lparr>fs := (\<lambda>p. if p = path \<or> startswith p (path @ ''/'') then None
                               else fs st p)\<rparr>)
      else if ignore_errors then (Inr (), st)
      else (Inl (OtherException ''PermissionError'' path), st))"

text \<open>
  \<^verbatim>\<open>db.session.add(DownloadHistory(...)); db.session.commit()\<close>: the store assigns the
  next \<^verbatim>\<open>id\<close>, the column default the current instant; the row is appended.
\<close>

definition next_id :: "DownloadHistory list \<Rightarrow> int" where
  "next_id rows = fold max (map id_col rows) 0 + 1"

definition db_add_commit :: "string \<Rightarrow> string \<Rightarrow> string \<Rightarrow> state \<Rightarrow> state" where
  "db_add_commit url fmt quality st =
     st\<lparr>db := db st @ [\<lparr>id_col = next_id (db st), url_col = url, file_format = fmt,
                         quality_col = quality, timestamp = clock st\<rparr>]\<rparr>"

text \<open>
  The body of the \<^verbatim>\<open>try\<close> statement of \<^verbatim>\<open>download_get\<close> with its \<^verbatim>\<open>except\<close> clause. The
  commit and \<^verbatim>\<open>send_file\<close> on the located path are taken to succeed.
\<close>

definition try_download ::
  "env \<Rightarrow> string \<Rightarrow> string \<Rightarrow> string \<Rightarrow> string \<Rightarrow> state \<Rightarrow> response \<times> state" where
  "try_download e url fmt quality tmp st =
     (let tpl = join tmp ''dl.%(ext)s'' in
      case download_single e url fmt quality tpl st of
        (Inr path, st1) \<Rightarrow>
          (FileResponse path (''JustPaste.'' @ fmt), db_add_commit url fmt quality st1)
      | (Inl x, st1) \<Rightarrow>
          (JsonResponse (Dict [(''error'', Str (str_exn x))]) 500,
           logging_exception ''Download error'' x st1))"

text \<open>
  The view function, undecorated. \<^verbatim>\<open>not url or not fmt\<close> holds for a missing and for an
  empty argument. The \<^verbatim>\<open>finally\<close> clause runs after either outcome of the \<^verbatim>\<open>try\<close>; an
  exception raised there would replace the response.
\<close>

definition download_get_view :: "env \<Rightarrow> request \<Rightarrow> state \<Rightarrow> (exn + response) \<times> state" where
  "download_get_view e req st =
     (let quality = (case args req ''quality'' of None \<Rightarrow> ''best'' | Some q \<Rightarrow> q);
          missing = (JsonResponse (Dict [(''error'', Str ''Missing url or format'')]) 400)
      in case (args req ''url'', args req ''format'') of
           (Some url, Some fmt) \<Rightarrow>
             (if url = [] \<or> fmt = [] then (Inr missing, st)
              else (case mkdtemp e st of
                      (Inl x, st0) \<Rightarrow> (Inl x, st0)
                    | (Inr tmp, st0) \<Rightarrow>
                        (case try_download e url fmt quality tmp st0 of
                           (resp, st1) \<Rightarrow>
                             (case rmtree e tmp True st1 of
                                (Inl x, st2) \<Rightarrow> (Inl x, st2)
                              | (Inr _, st2) \<Rightarrow> (Inr resp, st2)))))
         | _ \<Rightarrow> (Inr missing, st))"

definition download_get :: "env \<Rightarrow> request \<Rightarrow> state \<Rightarrow> (exn + response) \<times> state" where
  "download_get = require_api_key download_get_view"

text \<open>
  \<^verbatim>\<open>DownloadHistory.query.order_by(DownloadHistory.timestamp.desc()).all()\<close>: every row,
  latest instant first.
\<close>

definition order_by_timestamp_desc :: "DownloadHistory list \<Rightarrow> DownloadHistory list" where
  "order_by_timestamp_desc rows = rev (sort_key timestamp rows)"

definition as_dict :: "env \<Rightarrow> DownloadHistory \<Rightarrow> pyval" where
  "as_dict e r =
     Dict [(''id'', Num (id_col r)),
           (''url'', Str (url_col r)),
           (''file_format'', Str (file_format r)),
           (''quality'', Str (quality_col r)),
           (''timestamp'', Str (isoformat e (timestamp r) @ ''Z''))]"

definition history_view :: "env \<Rightarrow> request \<Rightarrow> state \<Rightarrow> (exn + response) \<times> state" where
  "history_view e req st =
     (let recs = order_by_timestamp_desc (db st) in
      (Inr (JsonResponse (Lst (map (as_dict e) recs)) 200), st))"

definition history :: "env \<Rightarrow> request \<Rightarrow> state \<Rightarrow> (exn + response) \<times> state" where
  "history = require_api_key history_view"

section \<open>The locator's test in the words of the specification\<close>

text \<open>The template's prefix: the template's name up to its first dot.\<close>

definition template_prefix :: "string \<Rightarrow> string" where
  "template_prefix tpl = takeWhile (\<lambda>c. c \<noteq> CHR ''.'') (basename tpl)"

text \<open>The test the scan applies to an entry, as \<^verbatim>\<open>download_single\<close> writes it.\<close>

definition scan_test :: "string \<Rightarrow> string \<Rightarrow> string \<Rightarrow> bool" where
  "scan_test prefix fmt fname = (startswith fname prefix \<and> endswith (lower fname) fmt)"

text \<open>
  An entry's extension is what follows its last dot; the entry has the requested format's
  extension, whatever the case of its letters, when its lower-cased name ends with a dot
  and the format.
\<close>

definition has_extension :: "string \<Rightarrow> string \<Rightarrow> bool" where
  "has_extension fmt fname = endswith (lower fname) (''.'' @ fmt)"

section \<open>Concrete worlds\<close>

definition ex_state :: state where
  "ex_state = \<lparr>fs = Map.empty, db = [], engine_calls = [], listdir_calls = [],
               log_records = [], clock = 1000\<rparr>"

text \<open>An engine that returns normally and leaves the entries \<open>names\<close> in directory \<open>d\<close>.\<close>

definition engine_writes ::
  "string \<Rightarrow> string list \<Rightarrow> nat \<Rightarrow> pyval \<Rightarrow> string list \<Rightarrow> (string \<rightharpoonup> string list)
     \<Rightarrow> exn option \<times> (string \<rightharpoonup> string list)" where
  "engine_writes d names i opts urls files = (None, files(d \<mapsto> names))"

text \<open>An engine that raises on every invocation, with the invocation's number in the message.\<close>

definition engine_fails ::
  "nat \<Rightarrow> pyval \<Rightarrow> string list \<Rightarrow> (string \<rightharpoonup> string list)
     \<Rightarrow> exn option \<times> (string \<rightharpoonup> string list)" where
  "engine_fails i opts urls files =
     (Some (OtherException ''DownloadError'' (''failure '' @ str_nat (i + 1))), files)"

text \<open>
  An engine that raises on its first invocation and from then on returns normally,
  leaving the entries \<open>names\<close> in directory \<open>d\<close>.
\<close>

definition engine_flaky ::
  "string \<Rightarrow> string list \<Rightarrow> nat \<Rightarrow> pyval \<Rightarrow> string list \<Rightarrow> (string \<rightharpoonup> string list)
     \<Rightarrow> exn option \<times> (string \<rightharpoonup> string list)" where
  "engine_flaky d names i opts urls files =
     (if i = 0 then (Some (OtherException ''DownloadError'' ''timed out''), files)
      else (None, files(d \<mapsto> names)))"

definition ex_env ::
  "(nat \<Rightarrow> pyval \<Rightarrow> string list \<Rightarrow> (string \<rightharpoonup> string list)
      \<Rightarrow> exn option \<times> (string \<rightharpoonup> string list)) \<Rightarrow> env" where
  "ex_env eng = \<lparr>engine = eng, API_KEY = Some ''secret'', tmp_names = [''/tmp/tmpa1''],
                 removable = (\<lambda>p. True), isoformat = (\<lambda>t. str_nat (nat t))\<rparr>"


definition ex_request :: "string \<Rightarrow> request" where
  "ex_request fmt =
     \<lparr>headers = [''Authorization'' \<mapsto> ''Bearer secret''],
      args = [''url'' \<mapsto> ''https://x/video'', ''format'' \<mapsto> fmt]\<rparr>"

section \<open>Properties\<close>

subsection \<open>Splitting the template name\<close>

lemma split_not_Nil: "split sep s \<noteq> []"
  by (induction s) (auto split: list.splits)

lemma hd_split: "hd (split sep s) = takeWhile (\<lambda>c. c \<noteq> sep) s"
  by (induction s) (auto split: list.splits simp: split_not_Nil)

lemma index0_split: "index0 (split sep s) = Inr (takeWhile (\<lambda>c. c \<noteq> sep) s)"
proof (cases "split sep s")
  case Nil
  then show ?thesis by (simp add: split_not_Nil)
next
  case (Cons w ws)
  then have "w = takeWhile (\<lambda>c. c \<noteq> sep) s"
    using hd_split [of sep s] by simp
  with Cons show ?thesis by (simp add: index0_def)
qed

subsection \<open>What the steps leave unchanged\<close>

lemma rmtree_ignore_errors: "fst (rmtree e path True st) = Inr ()"
  by (simp add: rmtree_def)






lemma listdir_keeps:
  "db (snd (listdir d st)) = db st \<and> clock (snd (listdir d st)) = clock st \<and>
   engine_calls (snd (listdir d st)) = engine_calls st \<and> fs (snd (listdir d st)) = fs st"
  by (simp add: listdir_def Let_def split: option.splits)




subsection \<open>The concrete worlds, evaluated\<close>

lemmas run_defs = download_get_def require_api_key_def download_get_view_def ex_env_def
  ex_request_def ex_state_def format_key_def mkdtemp_def try_download_def download_single_def
  get_ydl_opts_def MAX_DOWNLOAD_RETRIES_def upt_conv_Cons ydl_download_def engine_fails_def
  engine_writes_def logging_warning_def logging_exception_def rmtree_def join_def startswith_def
  endswith_def listdir_def index0_def dirname_def basename_def after_last_sep_def Let_def
  db_add_commit_def next_id_def lower_def lower_char_def

lemma str_nat_1: "str_nat (Suc 0) = ''1''"
  by code_simp

lemma str_nat_2: "str_nat (Suc (Suc 0)) = ''2''"
  by code_simp

lemma ex_auth:
  "headers (ex_request f) ''Authorization'' =
     Some (''Bearer '' @ format_key (API_KEY (ex_env eng)))"
  by (simp add: ex_request_def ex_env_def format_key_def)

lemma ex_url: "args (ex_request f) ''url'' = Some ''https://x/video''"
  by (simp add: ex_request_def)

lemma ex_format: "args (ex_request f) ''format'' = Some f"
  by (simp add: ex_request_def)

lemma ex_quality:
  "''best'' = (case args (ex_request f) ''quality'' of None \<Rightarrow> ''best'' | Some q \<Rightarrow> q)"
  by (simp add: ex_request_def)

lemma ex_mkdtemp:
  "mkdtemp (ex_env eng) ex_state = (Inr ''/tmp/tmpa1'', ex_state\<lparr>fs := [''/tmp/tmpa1'' \<mapsto> []]\<rparr>)"
  by (simp add: mkdtemp_def ex_env_def ex_state_def)

subsection \<open>Option resolution\<close>

text \<open>
  Claim C7. The resolved engine options do not depend on the quality argument: two
  quality values give the same result for the same format and template. For \<open>mp3\<close> the
  options ask for the audio extraction post-processor with the fixed quality \<open>192\<close>.
\<close>

theorem options_independent_of_quality:
  "get_ydl_opts fmt q1 tpl = get_ydl_opts fmt q2 tpl \<and>
   get_ydl_opts ''mp3'' q tpl =
     Inr (Dict [(''format'', Str ''bestaudio/best''),
                (''outtmpl'', Str tpl),
                (''postprocessors'',
                   Lst [Dict [(''key'', Str ''FFmpegExtractAudio''),
                              (''preferredcodec'', Str ''mp3''),
                              (''preferredquality'', Str ''192'')]]),
                (''retries'', Num 2)])"
  by (simp add: get_ydl_opts_def MAX_DOWNLOAD_RETRIES_def)

text \<open>The theorem at a concrete request.\<close>

theorem options_independent_of_quality_witness:
  "get_ydl_opts ''mp4'' ''best'' ''/tmp/tmpa1/dl.%(ext)s'' =
     get_ydl_opts ''mp4'' ''144p'' ''/tmp/tmpa1/dl.%(ext)s'' \<and>
   get_ydl_opts ''mp3'' ''320'' ''/tmp/tmpa1/dl.%(ext)s'' =
     Inr (Dict [(''format'', Str ''bestaudio/best''),
                (''outtmpl'', Str ''/tmp/tmpa1/dl.%(ext)s''),
                (''postprocessors'',
                   Lst [Dict [(''key'', Str ''FFmpegExtractAudio''),
                              (''preferredcodec'', Str ''mp3''),
                              (''preferredquality'', Str ''192'')]]),
                (''retries'', Num 2)])"
  using options_independent_of_quality [of "''mp4''" "''best''" "''/tmp/tmpa1/dl.%(ext)s''" "''144p''" "''320''"]
  by simp

text \<open>
  Claim C1. A request whose format is neither \<open>mp4\<close> nor \<open>mp3\<close> makes \<open>download_single\<close>
  fail with the \<^verbatim>\<open>ValueError\<close> of option resolution, and the state it returns is the
  state it was given: no engine invocation was made and no directory was scanned.
\<close>

theorem unsupported_format_fails_before_engine:
  assumes "fmt \<noteq> ''mp4''" and "fmt \<noteq> ''mp3''"
  shows "download_single e url fmt quality tpl st =
           (Inl (ValueError (''Unsupported format: '' @ fmt)), st) \<and>
         engine_calls (snd (download_single e url fmt quality tpl st)) = engine_calls st \<and>
         listdir_calls (snd (download_single e url fmt quality tpl st)) = listdir_calls st"
  using assms by (simp add: download_single_def get_ydl_opts_def)

text \<open>The theorem at a concrete request.\<close>

theorem unsupported_format_fails_before_engine_witness:
  "''wav'' \<noteq> ''mp4'' \<and> ''wav'' \<noteq> ''mp3'' \<and>
   download_single (ex_env engine_fails) ''https://x/video'' ''wav'' ''best''
       ''/tmp/tmpa1/dl.%(ext)s'' ex_state =
     (Inl (ValueError ''Unsupported format: wav''), ex_state)"
  using unsupported_format_fails_before_engine [of "''wav''" "ex_env engine_fails" "''https://x/video''" "''best''"
      "''/tmp/tmpa1/dl.%(ext)s''" ex_state]
  by simp

subsection \<open>The retry loop\<close>

lemma attempts: "[0..<MAX_DOWNLOAD_RETRIES] = [0, 1]"
  by (simp add: MAX_DOWNLOAD_RETRIES_def upt_conv_Cons)

lemma retry_loop_first_ok:
  assumes "engine e (length (engine_calls st)) opts [url] (fs st) = (None, fs1)"
  shows "retry_loop e opts url (a # as) st =
           (Inr (), st\<lparr>fs := fs1, engine_calls := engine_calls st @ [(opts, [url])]\<rparr>)"
  using assms by (simp add: ydl_download_def)

lemma retry_loop_both_fail:
  assumes "engine e (length (engine_calls st)) opts [url] (fs st) = (Some x1, fs1)"
    and "engine e (Suc (length (engine_calls st))) opts [url] fs1 = (Some x2, fs2)"
  shows "fst (retry_loop e opts url [0..<MAX_DOWNLOAD_RETRIES] st) = Inl x2 \<and>
         engine_calls (snd (retry_loop e opts url [0..<MAX_DOWNLOAD_RETRIES] st)) =
           engine_calls st @ [(opts, [url]), (opts, [url])]"
  using assms
  by (simp add: MAX_DOWNLOAD_RETRIES_def upt_conv_Cons ydl_download_def logging_warning_def Let_def)

text \<open>
  Claim C3. When the engine returns normally on the first attempt, the orchestrator has
  invoked it exactly once, whatever the locator does afterwards.
\<close>

theorem first_attempt_success_one_invocation:
  assumes "get_ydl_opts fmt quality tpl = Inr opts"
    and "engine e (length (engine_calls st)) opts [url] (fs st) = (None, fs1)"
  shows "engine_calls (snd (download_single e url fmt quality tpl st)) =
           engine_calls st @ [(opts, [url])]"
proof -
  let ?st1 = "st\<lparr>fs := fs1, engine_calls := engine_calls st @ [(opts, [url])]\<rparr>"
  have r: "retry_loop e opts url [0..<MAX_DOWNLOAD_RETRIES] st = (Inr (), ?st1)"
    using retry_loop_first_ok [OF assms(2)] by (simp add: attempts)
  obtain l st2 where l: "listdir (dirname tpl) ?st1 = (l, st2)"
    by (cases "listdir (dirname tpl) ?st1")
  then have "engine_calls st2 = engine_calls ?st1"
    using listdir_keeps [of "dirname tpl" ?st1] by simp
  with assms(1) r l show ?thesis
    by (auto simp: download_single_def Let_def index0_split split: sum.splits)
qed

text \<open>The theorem at a concrete request.\<close>

theorem first_attempt_success_one_invocation_witness:
  "engine_calls (snd (download_single (ex_env (engine_writes ''/tmp/tmpa1'' [''dl.mp4'']))
          ''https://x/video'' ''mp4'' ''best'' ''/tmp/tmpa1/dl.%(ext)s'' ex_state)) =
     [(Dict [(''format'', Str ''bestvideo+bestaudio/best''),
             (''outtmpl'', Str ''/tmp/tmpa1/dl.%(ext)s''),
             (''merge_output_format'', Str ''mp4''),
             (''retries'', Num 2)], [''https://x/video''])]"
proof -
  let ?opts = "Dict [(''format'', Str ''bestvideo+bestaudio/best''),
                     (''outtmpl'', Str ''/tmp/tmpa1/dl.%(ext)s''),
                     (''merge_output_format'', Str ''mp4''),
                     (''retries'', Num 2)]"
  let ?e = "ex_env (engine_writes ''/tmp/tmpa1'' [''dl.mp4''])"
  have o: "get_ydl_opts ''mp4'' ''best'' ''/tmp/tmpa1/dl.%(ext)s'' = Inr ?opts"
    by (simp add: get_ydl_opts_def MAX_DOWNLOAD_RETRIES_def)
  have a1: "engine ?e (length (engine_calls ex_state)) ?opts [''https://x/video''] (fs ex_state) =
            (None, [''/tmp/tmpa1'' \<mapsto> [''dl.mp4'']])"
    by (simp add: ex_env_def ex_state_def engine_writes_def)
  show ?thesis
    using first_attempt_success_one_invocation [OF o a1] by (simp add: ex_state_def)
qed

text \<open>
  Claim C2. When the engine raises on the first attempt and again on the second, the
  orchestrator has invoked it exactly \<open>MAX_DOWNLOAD_RETRIES\<close> = 2 times, both times with
  the same options and URL, and fails with the exception of the last attempt.
\<close>

theorem retry_exhausted_two_invocations:
  assumes "get_ydl_opts fmt quality tpl = Inr opts"
    and "engine e (length (engine_calls st)) opts [url] (fs st) = (Some x1, fs1)"
    and "engine e (Suc (length (engine_calls st))) opts [url] fs1 = (Some x2, fs2)"
  shows "fst (download_single e url fmt quality tpl st) = Inl x2 \<and>
         engine_calls (snd (download_single e url fmt quality tpl st)) =
           engine_calls st @ [(opts, [url]), (opts, [url])] \<and>
         length (engine_calls (snd (download_single e url fmt quality tpl st))) =
           length (engine_calls st) + MAX_DOWNLOAD_RETRIES"
proof -
  obtain r st1 where r: "retry_loop e opts url [0..<MAX_DOWNLOAD_RETRIES] st = (r, st1)"
    by (cases "retry_loop e opts url [0..<MAX_DOWNLOAD_RETRIES] st")
  with retry_loop_both_fail [OF assms(2,3)]
  have "r = Inl x2" and "engine_calls st1 = engine_calls st @ [(opts, [url]), (opts, [url])]"
    by simp_all
  with assms(1) r show ?thesis
    by (simp add: download_single_def MAX_DOWNLOAD_RETRIES_def)
qed

text \<open>The theorem at a concrete request.\<close>

theorem retry_exhausted_two_invocations_witness:
  "fst (download_single (ex_env engine_fails) ''https://x/video'' ''mp4'' ''best''
          ''/tmp/tmpa1/dl.%(ext)s'' ex_state) =
     Inl (OtherException ''DownloadError'' ''failure 2'') \<and>
   length (engine_calls (snd (download_single (ex_env engine_fails) ''https://x/video'' ''mp4''
          ''best'' ''/tmp/tmpa1/dl.%(ext)s'' ex_state))) = 2"
proof -
  let ?opts = "Dict [(''format'', Str ''bestvideo+bestaudio/best''),
                     (''outtmpl'', Str ''/tmp/tmpa1/dl.%(ext)s''),
                     (''merge_output_format'', Str ''mp4''),
                     (''retries'', Num 2)]"
  have o: "get_ydl_opts ''mp4'' ''best'' ''/tmp/tmpa1/dl.%(ext)s'' = Inr ?opts"
    by (simp add: get_ydl_opts_def MAX_DOWNLOAD_RETRIES_def)
  have a1: "engine (ex_env engine_fails) (length (engine_calls ex_state)) ?opts
              [''https://x/video''] (fs ex_state) =
            (Some (OtherException ''DownloadError'' ''failure 1''), Map.empty)"
    by (simp add: ex_env_def ex_state_def engine_fails_def str_nat_1)
  have a2: "engine (ex_env engine_fails) (Suc (length (engine_calls ex_state))) ?opts
              [''https://x/video''] Map.empty =
            (Some (OtherException ''DownloadError'' ''failure 2''), Map.empty)"
    by (simp add: ex_env_def ex_state_def engine_fails_def str_nat_2)
  show ?thesis
    using retry_exhausted_two_invocations [OF o a1 a2] by (simp add: ex_state_def MAX_DOWNLOAD_RETRIES_def)
qed

text \<open>
  When the engine raises on the first attempt and returns normally on the second, the
  orchestrator has invoked it twice with the same options, has logged one warning, for
  attempt 1, and goes on to the scan of the directory the second invocation left.
\<close>

theorem second_attempt_success_after_one_failure:
  assumes "get_ydl_opts fmt quality tpl = Inr opts"
    and "engine e (length (engine_calls st)) opts [url] (fs st) = (Some x1, fs1)"
    and "engine e (Suc (length (engine_calls st))) opts [url] fs1 = (None, fs2)"
  shows "engine_calls (snd (download_single e url fmt quality tpl st)) =
           engine_calls st @ [(opts, [url]), (opts, [url])] \<and>
         log_records (snd (download_single e url fmt quality tpl st)) =
           log_records st @ [Warning (''Attempt 1 failed: '' @ str_exn x1)] \<and>
         fst (download_single e url fmt quality tpl st) =
           (if dirname tpl = [] then Inl (NoSuchDirectory [])
            else case fs2 (dirname tpl) of
                   None \<Rightarrow> Inl (NoSuchDirectory (dirname tpl))
                 | Some names \<Rightarrow> locate (dirname tpl) (template_prefix tpl) fmt names)"
proof -
  let ?st1 = "st\<lparr>fs := fs2, engine_calls := engine_calls st @ [(opts, [url]), (opts, [url])],
                 log_records := log_records st @ [Warning (''Attempt 1 failed: '' @ str_exn x1)]\<rparr>"
  have r: "retry_loop e opts url [0..<MAX_DOWNLOAD_RETRIES] st = (Inr (), ?st1)"
    using assms(2,3)
    by (simp add: MAX_DOWNLOAD_RETRIES_def upt_conv_Cons ydl_download_def logging_warning_def
        Let_def str_nat_1)
  show ?thesis
    using assms(1) r
    by (simp add: download_single_def Let_def index0_split listdir_def template_prefix_def
        split: option.splits)
qed

text \<open>The theorem at a concrete request.\<close>

theorem second_attempt_success_after_one_failure_witness:
  "fst (download_single (ex_env (engine_flaky ''/tmp/tmpa1'' [''dl.mp3''])) ''https://x/audio''
          ''mp3'' ''best'' ''/tmp/tmpa1/dl.%(ext)s'' ex_state) = Inr ''/tmp/tmpa1/dl.mp3'' \<and>
   length (engine_calls (snd (download_single (ex_env (engine_flaky ''/tmp/tmpa1'' [''dl.mp3'']))
          ''https://x/audio'' ''mp3'' ''best'' ''/tmp/tmpa1/dl.%(ext)s'' ex_state))) = 2 \<and>
   log_records (snd (download_single (ex_env (engine_flaky ''/tmp/tmpa1'' [''dl.mp3'']))
          ''https://x/audio'' ''mp3'' ''best'' ''/tmp/tmpa1/dl.%(ext)s'' ex_state)) =
     [Warning ''Attempt 1 failed: timed out'']"
proof -
  let ?tpl = "''/tmp/tmpa1/dl.%(ext)s''"
  let ?opts = "Dict [(''format'', Str ''bestaudio/best''),
                (''outtmpl'', Str ?tpl),
                (''postprocessors'',
                   Lst [Dict [(''key'', Str ''FFmpegExtractAudio''),
                              (''preferredcodec'', Str ''mp3''),
                              (''preferredquality'', Str ''192'')]]),
                (''retries'', Num 2)]"
  let ?e = "ex_env (engine_flaky ''/tmp/tmpa1'' [''dl.mp3''])"
  have o: "get_ydl_opts ''mp3'' ''best'' ?tpl = Inr ?opts"
    by (simp add: get_ydl_opts_def MAX_DOWNLOAD_RETRIES_def)
  have a1: "engine ?e (length (engine_calls ex_state)) ?opts [''https://x/audio''] (fs ex_state) =
            (Some (OtherException ''DownloadError'' ''timed out''), Map.empty)"
    by (simp add: ex_env_def ex_state_def engine_flaky_def)
  have a2: "engine ?e (Suc (length (engine_calls ex_state))) ?opts [''https://x/audio''] Map.empty =
            (None, [''/tmp/tmpa1'' \<mapsto> [''dl.mp3'']])"
    by (simp add: ex_env_def ex_state_def engine_flaky_def)
  have d: "dirname ?tpl = ''/tmp/tmpa1''"
    by (simp add: dirname_def after_last_sep_def Let_def)
  have p: "template_prefix ?tpl = ''dl''"
    by (simp add: template_prefix_def basename_def after_last_sep_def)
  have f: "fs ex_state = Map.empty" "engine_calls ex_state = []" "log_records ex_state = []"
    by (simp_all add: ex_state_def)
  show ?thesis
    using second_attempt_success_after_one_failure [OF o a1 a2]
    by (simp add: d p f startswith_def endswith_def lower_def lower_char_def join_def)
qed

subsection \<open>The locator\<close>


lemma locate_first:
  "locate d prefix fmt names = Inr p \<Longrightarrow>
   \<exists>before n after. names = before @ n # after \<and> (\<forall>m\<in>set before. \<not> scan_test prefix fmt m)
      \<and> scan_test prefix fmt n \<and> p = join d n"
proof (induction names)
  case Nil
  then show ?case by simp
next
  case (Cons a names)
  show ?case
  proof (cases "scan_test prefix fmt a")
    case True
    with Cons.prems have "p = join d a" by (simp add: scan_test_def)
    with True show ?thesis by (intro exI [of _ "[]"] exI [of _ a] exI [of _ names]) simp
  next
    case False
    with Cons.prems have "locate d prefix fmt names = Inr p" by (auto simp: scan_test_def)
    from Cons.IH [OF this] obtain before n after where
      h: "names = before @ n # after" "\<forall>m\<in>set before. \<not> scan_test prefix fmt m"
         "scan_test prefix fmt n" "p = join d n" by blast
    with False show ?thesis
      by (intro exI [of _ "a # before"] exI [of _ n] exI [of _ after]) simp
  qed
qed

text \<open>
  Claim C4. The claim is that the located entry has the requested format's extension. Here
  the engine leaves \<^verbatim>\<open>dl.tmp3\<close> and \<^verbatim>\<open>dl.mp3\<close> in the scratch directory and the request asks
  for \<open>mp3\<close>: the orchestrator returns \<^verbatim>\<open>dl.tmp3\<close>, whose extension is not \<open>mp3\<close>, although
  an entry with that extension is there. The scan tests the end of the name against the
  format without the dot that the program's own error message (\<^verbatim>\<open>No .mp3 file found\<close>) puts
  before it.
\<close>

theorem locator_returns_entry_without_the_extension:
  "fst (download_single (ex_env (engine_writes ''/tmp/tmpa1'' [''dl.tmp3'', ''dl.mp3'']))
          ''https://x/audio'' ''mp3'' ''best'' ''/tmp/tmpa1/dl.%(ext)s''
          (ex_state\<lparr>fs := [''/tmp/tmpa1'' \<mapsto> []]\<rparr>)) =
     Inr ''/tmp/tmpa1/dl.tmp3'' \<and>
   \<not> has_extension ''mp3'' ''dl.tmp3'' \<and> has_extension ''mp3'' ''dl.mp3''"
  by (simp add: run_defs has_extension_def)



subsection \<open>The download route\<close>

lemma download_get_reaches_try:
  assumes "headers req ''Authorization'' = Some (''Bearer '' @ format_key (API_KEY e))"
    and "args req ''url'' = Some url" and "args req ''format'' = Some fmt"
    and "url \<noteq> []" and "fmt \<noteq> []"
    and "quality = (case args req ''quality'' of None \<Rightarrow> ''best'' | Some q \<Rightarrow> q)"
    and "mkdtemp e st = (Inr tmp, st0)"
  shows "download_get e req st =
           (Inr (fst (try_download e url fmt quality tmp st0)),
            snd (rmtree e tmp True (snd (try_download e url fmt quality tmp st0))))"
proof -
  obtain resp st1 where t: "try_download e url fmt quality tmp st0 = (resp, st1)"
    by (cases "try_download e url fmt quality tmp st0")
  obtain u st2 where u: "rmtree e tmp True st1 = (u, st2)"
    by (cases "rmtree e tmp True st1")
  with rmtree_ignore_errors [of e tmp st1] have "u = Inr ()" by simp
  with assms t u show ?thesis
    by (simp add: download_get_def require_api_key_def download_get_view_def)
qed


text \<open>
  A request whose \<^verbatim>\<open>Authorization\<close> header is not \<^verbatim>\<open>Bearer\<close> followed by the key is answered
  with status 401 by both routes, and nothing changes.
\<close>

theorem unauthorized_request_rejected:
  assumes "headers req ''Authorization'' \<noteq> Some (''Bearer '' @ format_key (API_KEY e))"
  shows "download_get e req st =
           (Inr (JsonResponse (Dict [(''error'', Str ''Unauthorized'')]) 401), st) \<and>
         history e req st =
           (Inr (JsonResponse (Dict [(''error'', Str ''Unauthorized'')]) 401), st)"
  using assms
  by (auto simp: download_get_def history_def require_api_key_def split: option.splits)

text \<open>The theorem at a concrete request.\<close>

theorem unauthorized_request_rejected_witness:
  "download_get (ex_env engine_fails)
       \<lparr>headers = [''Authorization'' \<mapsto> ''Bearer guess''],
        args = [''url'' \<mapsto> ''https://x/video'', ''format'' \<mapsto> ''mp4'']\<rparr> ex_state =
     (Inr (JsonResponse (Dict [(''error'', Str ''Unauthorized'')]) 401), ex_state)"
proof -
  let ?req = "\<lparr>headers = [''Authorization'' \<mapsto> ''Bearer guess''],
        args = [''url'' \<mapsto> ''https://x/video'', ''format'' \<mapsto> ''mp4'']\<rparr>"
  have h: "headers ?req ''Authorization'' \<noteq>
             Some (''Bearer '' @ format_key (API_KEY (ex_env engine_fails)))"
    by (simp add: ex_env_def format_key_def)
  show ?thesis using unauthorized_request_rejected [OF h] by simp
qed

text \<open>
  An authorised download request with a missing or empty \<^verbatim>\<open>url\<close> or \<^verbatim>\<open>format\<close> is answered
  with status 400 before a scratch directory is made: nothing changes.
\<close>

theorem missing_argument_rejected:
  assumes "headers req ''Authorization'' = Some (''Bearer '' @ format_key (API_KEY e))"
    and "args req ''url'' = None \<or> args req ''url'' = Some [] \<or>
         args req ''format'' = None \<or> args req ''format'' = Some []"
  shows "download_get e req st =
           (Inr (JsonResponse (Dict [(''error'', Str ''Missing url or format'')]) 400), st)"
  using assms
  by (auto simp: download_get_def require_api_key_def download_get_view_def Let_def
      split: option.splits)

text \<open>The theorem at a concrete request.\<close>

theorem missing_argument_rejected_witness:
  "download_get (ex_env engine_fails)
       \<lparr>headers = [''Authorization'' \<mapsto> ''Bearer secret''],
        args = [''url'' \<mapsto> ''https://x/video'']\<rparr> ex_state =
     (Inr (JsonResponse (Dict [(''error'', Str ''Missing url or format'')]) 400), ex_state)"
proof -
  let ?req = "\<lparr>headers = [''Authorization'' \<mapsto> ''Bearer secret''],
        args = [''url'' \<mapsto> ''https://x/video'']\<rparr>"
  have h: "headers ?req ''Authorization'' =
             Some (''Bearer '' @ format_key (API_KEY (ex_env engine_fails)))"
    by (simp add: ex_env_def format_key_def)
  have a: "args ?req ''url'' = None \<or> args ?req ''url'' = Some [] \<or>
           args ?req ''format'' = None \<or> args ?req ''format'' = Some []"
    by simp
  show ?thesis using missing_argument_rejected [OF h a] by simp
qed

text \<open>
  Claim C10. When \<open>download_single\<close> raises, whatever the exception, the endpoint answers
  with status 500 and the JSON body \<^verbatim>\<open>{'error': str(e)}\<close>.
\<close>

theorem orchestrator_exception_gives_500:
  assumes "headers req ''Authorization'' = Some (''Bearer '' @ format_key (API_KEY e))"
    and "args req ''url'' = Some url" and "args req ''format'' = Some fmt"
    and "url \<noteq> []" and "fmt \<noteq> []"
    and "quality = (case args req ''quality'' of None \<Rightarrow> ''best'' | Some q \<Rightarrow> q)"
    and "mkdtemp e st = (Inr tmp, st0)"
    and "fst (download_single e url fmt quality (join tmp ''dl.%(ext)s'') st0) = Inl x"
  shows "fst (download_get e req st) =
           Inr (JsonResponse (Dict [(''error'', Str (str_exn x))]) 500)"
  using download_get_reaches_try [OF assms(1-7)] assms(8)
  by (auto simp: try_download_def Let_def split: prod.splits sum.splits)

text \<open>The theorem at concrete requests.\<close>

theorem orchestrator_exception_gives_500_witness:
  "fst (download_get (ex_env engine_fails) (ex_request ''wav'') ex_state) =
     Inr (JsonResponse (Dict [(''error'', Str ''Unsupported format: wav'')]) 500) \<and>
   fst (download_get (ex_env engine_fails) (ex_request ''mp4'') ex_state) =
     Inr (JsonResponse (Dict [(''error'', Str ''failure 2'')]) 500) \<and>
   fst (download_get (ex_env (engine_writes ''/tmp/tmpa1'' [''dl.part''])) (ex_request ''mp3'')
          ex_state) =
     Inr (JsonResponse (Dict [(''error'', Str ''No .mp3 file found for dl'')]) 500)"
proof -
  let ?st0 = "ex_state\<lparr>fs := [''/tmp/tmpa1'' \<mapsto> []]\<rparr>"
  let ?tpl = "join ''/tmp/tmpa1'' ''dl.%(ext)s''"
  have a: "fst (download_single (ex_env engine_fails) ''https://x/video'' ''wav'' ''best''
                  ?tpl ?st0) = Inl (ValueError ''Unsupported format: wav'')"
    by (simp add: run_defs)
  have b: "fst (download_single (ex_env engine_fails) ''https://x/video'' ''mp4'' ''best''
                  ?tpl ?st0) = Inl (OtherException ''DownloadError'' ''failure 2'')"
    by (simp add: run_defs str_nat_1 str_nat_2)
  have c: "fst (download_single (ex_env (engine_writes ''/tmp/tmpa1'' [''dl.part'']))
                  ''https://x/video'' ''mp3'' ''best'' ?tpl ?st0) =
             Inl (FileNotFoundError ''No .mp3 file found for dl'')"
    by (simp add: run_defs)
  show ?thesis
    using orchestrator_exception_gives_500 [OF ex_auth ex_url ex_format _ _ ex_quality ex_mkdtemp a]
      orchestrator_exception_gives_500 [OF ex_auth ex_url ex_format _ _ ex_quality ex_mkdtemp b]
      orchestrator_exception_gives_500 [OF ex_auth ex_url ex_format _ _ ex_quality ex_mkdtemp c]
    by simp
qed




subsection \<open>Cleaning up the scratch directory\<close>

lemma ydl_download_removable:
  "ydl_download (e\<lparr>removable := r\<rparr>) opts urls st = ydl_download e opts urls st"
  by (simp add: ydl_download_def)

lemma retry_loop_removable:
  "retry_loop (e\<lparr>removable := r\<rparr>) opts url as st = retry_loop e opts url as st"
  by (induction as arbitrary: st)
     (simp_all add: ydl_download_removable Let_def split: prod.splits sum.splits)

lemma download_single_removable:
  "download_single (e\<lparr>removable := r\<rparr>) url fmt quality tpl st =
   download_single e url fmt quality tpl st"
  by (cases "get_ydl_opts fmt quality tpl") (simp_all add: download_single_def retry_loop_removable)

lemma try_download_removable:
  "try_download (e\<lparr>removable := r\<rparr>) url fmt quality tmp st =
   try_download e url fmt quality tmp st"
  by (simp add: try_download_def download_single_removable)

lemma mkdtemp_removable: "mkdtemp (e\<lparr>removable := r\<rparr>) st = mkdtemp e st"
  by (simp add: mkdtemp_def)

lemma download_get_response_removable:
  "fst (download_get (e\<lparr>removable := r\<rparr>) req st) = fst (download_get e req st)"
  by (auto simp: download_get_def require_api_key_def download_get_view_def mkdtemp_removable
      try_download_removable rmtree_def Let_def split: option.splits prod.splits sum.splits)

lemma rmtree_removes: "removable e p \<Longrightarrow> fs (snd (rmtree e p True st)) p = None"
  by (simp add: rmtree_def)

lemma rmtree_twice:
  "rmtree e p True (snd (rmtree e p True st)) = (Inr (), snd (rmtree e p True st))"
  by (simp add: rmtree_def)

text \<open>
  Claim C8. For a request that got its scratch directory: whatever the \<^verbatim>\<open>try\<close> statement
  produced (the file, or the 500 of any exception), the directory is gone afterwards if
  the process may delete it; the response is exactly the one the \<^verbatim>\<open>try\<close> statement
  produced, and it is the same whether or not deletion is possible; removing the directory
  a second time returns normally and changes nothing.
\<close>

theorem scratch_directory_removed_on_every_path:
  assumes "headers req ''Authorization'' = Some (''Bearer '' @ format_key (API_KEY e))"
    and "args req ''url'' = Some url" and "args req ''format'' = Some fmt"
    and "url \<noteq> []" and "fmt \<noteq> []"
    and "quality = (case args req ''quality'' of None \<Rightarrow> ''best'' | Some q \<Rightarrow> q)"
    and "mkdtemp e st = (Inr tmp, st0)"
  shows "(removable e tmp \<longrightarrow> fs (snd (download_get e req st)) tmp = None) \<and>
         fst (download_get e req st) = Inr (fst (try_download e url fmt quality tmp st0)) \<and>
         fst (download_get (e\<lparr>removable := r\<rparr>) req st) = fst (download_get e req st) \<and>
         rmtree e tmp True (snd (download_get e req st)) = (Inr (), snd (download_get e req st))"
proof -
  have g: "download_get e req st =
             (Inr (fst (try_download e url fmt quality tmp st0)),
              snd (rmtree e tmp True (snd (try_download e url fmt quality tmp st0))))"
    using download_get_reaches_try [OF assms] .
  show ?thesis
    using g rmtree_removes [of e tmp "snd (try_download e url fmt quality tmp st0)"]
      rmtree_twice [of e tmp "snd (try_download e url fmt quality tmp st0)"]
      download_get_response_removable [of r e req st]
    by simp
qed

text \<open>The theorem at concrete requests.\<close>

theorem scratch_directory_removed_on_every_path_witness:
  "fs (snd (download_get (ex_env (engine_writes ''/tmp/tmpa1'' [''dl.mp4'']))
          (ex_request ''mp4'') ex_state)) ''/tmp/tmpa1'' = None \<and>
   fst (download_get (ex_env (engine_writes ''/tmp/tmpa1'' [''dl.mp4'']))
          (ex_request ''mp4'') ex_state) =
     Inr (FileResponse ''/tmp/tmpa1/dl.mp4'' ''JustPaste.mp4'') \<and>
   fst (download_get ((ex_env (engine_writes ''/tmp/tmpa1'' [''dl.mp4'']))
                         \<lparr>removable := \<lambda>p. False\<rparr>)
          (ex_request ''mp4'') ex_state) =
     Inr (FileResponse ''/tmp/tmpa1/dl.mp4'' ''JustPaste.mp4'')"
proof -
  let ?e = "ex_env (engine_writes ''/tmp/tmpa1'' [''dl.mp4''])"
  let ?st0 = "ex_state\<lparr>fs := [''/tmp/tmpa1'' \<mapsto> []]\<rparr>"
  have rem: "removable ?e ''/tmp/tmpa1''" by (simp add: ex_env_def)
  have t: "fst (try_download ?e ''https://x/video'' ''mp4'' ''best'' ''/tmp/tmpa1'' ?st0) =
             FileResponse ''/tmp/tmpa1/dl.mp4'' ''JustPaste.mp4''"
    by (simp add: run_defs)
  show ?thesis
    using scratch_directory_removed_on_every_path [OF ex_auth [of "''mp4''" "engine_writes ''/tmp/tmpa1'' [''dl.mp4'']"]
        ex_url ex_format _ _ ex_quality ex_mkdtemp, where r = "\<lambda>p. False"] rem t
    by simp
qed

subsection \<open>The history route\<close>




end
